theory Spec2Isabelle
  imports Main "HOL-Library.Sublist" "HOL-Library.AList"
begin

section \<open>JavaScript string primitives used by the dispatch core\<close>

text \<open>
  Strings are \<^typ>\<open>string\<close>. A JavaScript string is falsy exactly when it is empty.
\<close>

definition truthy :: "string \<Rightarrow> bool" where
  "truthy s = (s \<noteq> [])"

text \<open>\<^verbatim>\<open>x || ''\<close> for an optional string: \<^verbatim>\<open>undefined\<close> and the empty string both give
  the empty string.\<close>

definition orEmpty :: "string option \<Rightarrow> string" where
  "orEmpty x = (case x of None \<Rightarrow> [] | Some s \<Rightarrow> s)"

text \<open>\<^verbatim>\<open>s.indexOf(sub)\<close>: the position of the first occurrence, \<open>-1\<close> when there is none.\<close>

fun indexOfFrom :: "string \<Rightarrow> string \<Rightarrow> nat \<Rightarrow> int" where
  "indexOfFrom [] sub i = (if sub = [] then int i else - 1)"
| "indexOfFrom (c # cs) sub i =
     (if prefix sub (c # cs) then int i else indexOfFrom cs sub (Suc i))"

definition indexOf :: "string \<Rightarrow> string \<Rightarrow> int" where
  "indexOf s sub = indexOfFrom s sub 0"

text \<open>\<^verbatim>\<open>s.substr(0, n)\<close>: a negative length gives the empty string.\<close>

definition substr0 :: "string \<Rightarrow> int \<Rightarrow> string" where
  "substr0 s n = take (nat n) s"

text \<open>\<^verbatim>\<open>s.replace(pat, '')\<close> with a string pattern: the first occurrence is removed.\<close>

definition replaceFirst :: "string \<Rightarrow> string \<Rightarrow> string" where
  "replaceFirst s pat =
     (let i = indexOf s pat
      in if i < 0 then s else take (nat i) s @ drop (nat i + length pat) s)"

text \<open>\<^verbatim>\<open>s.toLowerCase()\<close> on the ASCII letters; other bytes are left as they are
  (lower-casing never yields an ASCII capital).\<close>

definition toLowerChar :: "char \<Rightarrow> char" where
  "toLowerChar c =
     (let n = (of_char c :: nat)
      in if 65 \<le> n \<and> n \<le> 90 then char_of (n + 32) else c)"

definition toLowerCase :: "string \<Rightarrow> string" where
  "toLowerCase s = map toLowerChar s"

text \<open>\<^verbatim>\<open>xs.join(',')\<close>.\<close>

fun join :: "string list \<Rightarrow> string" where
  "join [] = []"
| "join [x] = x"
| "join (x # y # ys) = x @ '','' @ join (y # ys)"

text \<open>\<^verbatim>\<open>String(n)\<close> for an integer \<open>n\<close> that a number holds exactly, that is of magnitude at
  most \<open>2^53 - 1\<close>: its decimal digits, with a minus sign when negative.\<close>

fun digits :: "nat \<Rightarrow> string" where
  "digits n =
     (if n < 10 then [char_of (48 + n)]
      else digits (n div 10) @ [char_of (48 + n mod 10)])"

declare digits.simps [simp del]

definition StringOfInt :: "int \<Rightarrow> string" where
  "StringOfInt n = (if n < 0 then CHR ''-'' # digits (nat (- n)) else digits (nat n))"

text \<open>
  A number of the configuration: an integer, or any other number, kept as it is written.
\<close>

datatype jsnumber = IntegerNumber int | OtherNumber string

definition maxSafeInteger :: int where
  "maxSafeInteger = 9007199254740991"

section \<open>Errors\<close>

text \<open>
  A thrown value is either an \<^verbatim>\<open>HttpError\<close> with its code and message, or anything else.
\<close>

datatype fault = HttpError int string | OtherFault string

text \<open>
  Modelled from the spec: the module \<^verbatim>\<open>errors/index\<close> with the class \<^verbatim>\<open>BadRequestError\<close> is
  not among the sources. A bad request is an HttpError with status 400; its message is the
  one given to the constructor, or the reason phrase when none is given.
\<close>

definition BadRequestError :: "string option \<Rightarrow> fault" where
  "BadRequestError m = HttpError 400 (case m of None \<Rightarrow> ''Bad Request'' | Some s \<Rightarrow> s)"

text \<open>
  Modelled from the spec: the class \<^verbatim>\<open>UnauthorizedError\<close> of the same module is not among the
  sources. It is an HttpError with status 401.
\<close>

definition UnauthorizedError :: fault where
  "UnauthorizedError = HttpError 401 ''Unauthorized''"

text \<open>
  Modelled from the spec: the class \<^verbatim>\<open>NotFoundError\<close> of the same module is not among the
  sources. It is an HttpError with status 404.
\<close>

definition NotFoundError :: fault where
  "NotFoundError = HttpError 404 ''Not Found''"

section \<open>Request methods and decorator buckets\<close>

text \<open>
  The route decorators that \<^verbatim>\<open>getDecoratorByMethod\<close> can return. A request method is a
  string, a member of the numeric enumeration \<^verbatim>\<open>RequestMethod\<close>, or missing.
\<close>

datatype decorator = Get | Post | Put | Delete | Options

datatype method_val = MStr string | MNum nat | MUndefined

text \<open>The declared type of a handler parameter, as the container reports it.\<close>

datatype ctor = CString | CBoolean | CNumber | CDate | CClass string | COther string

text \<open>
  Functions the dispatch core calls whose source is not available; they are parameters of
  the model: \<^verbatim>\<open>cutEmptyPath\<close> of the base route (the flag says whether the call passes
  \<^verbatim>\<open>true\<close> as second argument), \<^verbatim>\<open>methodToString\<close> and \<^verbatim>\<open>parseRequestMethod\<close> of the
  request-method module, \<^verbatim>\<open>toString\<close> of a thrown value, and the container library's
  \<^verbatim>\<open>isClass\<close>, \<^verbatim>\<open>isToken\<close>, \<^verbatim>\<open>isFunction\<close> and the names under which a class declares
  \<^verbatim>\<open>Field\<close> metadata. The last parameter is what \<^verbatim>\<open>String\<close> prints for a number that is not an
  integer of magnitude at most \<open>2^53 - 1\<close> (a fraction, an exponent form, \<^verbatim>\<open>NaN\<close>).
\<close>

record helpers =
  cutEmptyPath :: "string \<Rightarrow> bool \<Rightarrow> string"
  methodToString :: "method_val \<Rightarrow> string"
  parseRequestMethod :: "string \<Rightarrow> method_val"
  errToString :: "fault \<Rightarrow> string"
  isClass :: "ctor \<Rightarrow> bool"
  isToken :: "ctor \<Rightarrow> bool"
  isFunction :: "ctor \<Rightarrow> bool"
  fieldNames :: "ctor \<Rightarrow> string list"
  numberToString :: "jsnumber \<Rightarrow> string"

text \<open>\<^verbatim>\<open>String(x)\<close> for an optional number: \<^verbatim>\<open>String(undefined)\<close> is the nine-character
  string \<^verbatim>\<open>undefined\<close>.\<close>

definition StringOfNumber :: "helpers \<Rightarrow> jsnumber option \<Rightarrow> string" where
  "StringOfNumber h x =
     (case x of
        None \<Rightarrow> ''undefined''
      | Some (IntegerNumber n) \<Rightarrow>
          if - maxSafeInteger \<le> n \<and> n \<le> maxSafeInteger then StringOfInt n
          else numberToString h (IntegerNumber n)
      | Some (OtherNumber w) \<Rightarrow> numberToString h (OtherNumber w))"

text \<open>
  \<^verbatim>\<open>getDecoratorByMethod\<close>: a number goes through \<^verbatim>\<open>methodToString\<close>, anything else is
  lower-cased (a missing method as the empty string); the switch then compares with the
  literals \<^verbatim>\<open>'GET'\<close>, \<^verbatim>\<open>'POST'\<close>, \<^verbatim>\<open>'Put'\<close>, \<^verbatim>\<open>'DElETE'\<close>, \<^verbatim>\<open>'OPTIONS'\<close>, as written.
\<close>

definition getDecoratorByMethod :: "helpers \<Rightarrow> method_val \<Rightarrow> decorator" where
  "getDecoratorByMethod h m =
     (let s = (case m of
                 MNum n \<Rightarrow> methodToString h (MNum n)
               | MStr t \<Rightarrow> toLowerCase t
               | MUndefined \<Rightarrow> toLowerCase [])
      in if s = ''GET'' then Get
         else if s = ''POST'' then Post
         else if s = ''Put'' then Put
         else if s = ''DElETE'' then Delete
         else if s = ''OPTIONS'' then Options
         else Get)"

section \<open>Data model\<close>

text \<open>
  A route-metadata entry as the matcher and the dispatcher read it: the route pattern, the
  handler's property key and the optional content type. Each may be absent.
\<close>

record RouteMetadata =
  route :: "string option"
  propertyKey :: "string option"
  contentType :: "string option"

text \<open>CORS options, global (\<^verbatim>\<open>Configuration.corsOptions\<close>) or declared by a decorator.\<close>

datatype allowMethodsT = MethodsString string | MethodsArray "method_val list"

datatype allowHeadersT = HeadersString string | HeadersArray "string list"

record CorsOptions =
  credentials :: "bool option"
  exposeHeaders :: "string option"
  keepHeadersOnError :: "bool option"
  allowMethods :: "allowMethodsT option"
  allowHeaders :: "allowHeadersT option"
  maxAge :: "jsnumber option"

text \<open>JSON-like values of request bodies and of plain response objects.\<close>

datatype json = JNull | JBool bool | JNum int | JStr string
  | JArr "json list" | JObj "(string \<times> json) list"

datatype jsobject = PlainObject "(string \<times> json) list" | ArrayObject "json list"
  | Uint8ArrayObject "nat list"

datatype body = BodyString string | BodyBuffer "nat list" | BodyObject jsobject

text \<open>
  The value bound to a handler parameter. Parsing the path segment is kept symbolic:
  \<open>VNumber s\<close> is \<^verbatim>\<open>parseFloat(s)\<close>, \<open>VBoolean s\<close> is \<^verbatim>\<open>new Boolean(s)\<close>, \<open>VDate s\<close> is
  \<^verbatim>\<open>new Date(s)\<close>.
\<close>

datatype argval = VUndefined | VString string | VBoolean string | VNumber string
  | VDate string | VObject "(string \<times> json) list"

type_synonym provider = "argval \<times> nat"

text \<open>The runs of the matcher and the calls to the external container, in the order they
  are made.\<close>

datatype event = GetRouteMetaData decorator | ContainerGetController
  | ContainerHasAuthorization | IsAuth | GetMethodParameters string
  | Invoke string "provider list"

text \<open>
  The request context, together with the two channels a dispatch can be observed on: what
  was written to \<^verbatim>\<open>console.error\<close> and which container calls were made. The field
  \<open>httpMethod\<close> is \<^verbatim>\<open>ctx.method\<close>, \<open>ctype\<close> is \<^verbatim>\<open>ctx.type\<close>.
\<close>

record ctx =
  httpMethod :: method_val
  url :: string
  requestHeaders :: "(string \<times> string) list"
  requestBody :: "(string \<times> json) list option"
  status :: int
  message :: string
  responseHeaders :: "(string \<times> string) list"
  varyFields :: "string list"
  body :: "body option"
  ctype :: "string option"
  redirected :: "(string \<times> string option) option"
  console :: "fault list"
  calls :: "event list"

text \<open>A step that may throw: the fault, if any, and the context as the step left it.\<close>

type_synonym step = "ctx \<Rightarrow> fault option \<times> ctx"

text \<open>
  What crosses the \<^verbatim>\<open>next()\<close> boundary when a later stage fails: the thrown value with its
  \<^verbatim>\<open>headers\<close> property.
\<close>

type_synonym thrown = "fault \<times> (string \<times> string) list"

type_synonym continuation = "ctx \<Rightarrow> thrown + ctx"

text \<open>
  Result values. \<^verbatim>\<open>JsonResult\<close> and \<^verbatim>\<open>RedirectResult\<close> are as in the sources; any other
  subclass of \<^verbatim>\<open>ResultValue\<close> carries its own \<^verbatim>\<open>sendValue\<close>.
\<close>

datatype resultValue = JsonResult "jsobject option" | RedirectResult string "string option"
  | OtherResult step

datatype response = RString string | RObject jsobject | RResult resultValue | RPrimitive

text \<open>The metadata that the decorators attached to a controller type.\<close>

record controller =
  routeMeta :: "decorator \<Rightarrow> (string \<times> RouteMetadata list) list"
  corsMethodMeta :: "(string \<times> CorsOptions list) list"
  corsTypeMeta :: "CorsOptions list"
  authorization :: "string \<Rightarrow> bool"

text \<open>
  The external container, as far as a dispatch consults it: whether an authorization
  capability is registered and what its \<^verbatim>\<open>isAuth()\<close> answers, the global CORS options of
  the configuration, the declared parameter types of a handler, the instance built for a
  class token, and the handler bodies (\<^verbatim>\<open>container.invoke\<close>), which may throw.
\<close>

record container =
  hasAuthorization :: bool
  isAuth :: bool
  corsOptions :: "CorsOptions option"
  getMethodParameters :: "string \<Rightarrow> ctor list"
  getInstance :: "ctor \<Rightarrow> fault + (string \<times> json) list"
  invokeMethod :: "string \<Rightarrow> provider list \<Rightarrow> fault + response"

text \<open>A route node: its mount path \<^verbatim>\<open>this.url\<close> and its controller type.\<close>

record ControllerRoute =
  this_url :: string
  this_controller :: controller

section \<open>Route Matcher\<close>

text \<open>\<^verbatim>\<open>isRestUri\<close>: the pattern contains the marker \<^verbatim>\<open>/:\<close>.\<close>

definition isRestUri :: "string \<Rightarrow> bool" where
  "isRestUri uri = (indexOf uri ''/:'' \<noteq> - 1)"

text \<open>
  The request path after the mount prefix is taken out. The flag of \<^verbatim>\<open>cutEmptyPath\<close> says
  whether the call passes \<^verbatim>\<open>true\<close> as second argument.
\<close>

definition routPathOf :: "helpers \<Rightarrow> ControllerRoute \<Rightarrow> ctx \<Rightarrow> string" where
  "routPathOf h node c =
     (let baseURL = cutEmptyPath h (this_url node) True
      in cutEmptyPath h (replaceFirst (url c) baseURL) False)"

text \<open>All entries of one decorator bucket, over all handler names, in declaration order.\<close>

definition allMethodsOf :: "ControllerRoute \<Rightarrow> decorator \<Rightarrow> RouteMetadata list" where
  "allMethodsOf node d = concat (map snd (routeMeta (this_controller node) d))"

text \<open>The sort of the candidates: longer route patterns first; the sort of the engine is
  taken to be stable, so patterns of equal length keep their order.\<close>

definition sortByRouteLength :: "RouteMetadata list \<Rightarrow> RouteMetadata list" where
  "sortByRouteLength ms = sort_key (\<lambda>r. - int (length (orEmpty (route r)))) ms"

text \<open>The static prefix of a pattern: what stands before its first parameter marker.\<close>

definition staticPrefix :: "string \<Rightarrow> string" where
  "staticPrefix uri = substr0 uri (indexOf uri ''/:'')"

text \<open>The predicate of the second pass.\<close>

definition restMatch :: "string \<Rightarrow> RouteMetadata \<Rightarrow> bool" where
  "restMatch routPath r =
     (let uri = orEmpty (route r)
      in if isRestUri uri
         then (let idex = indexOf uri ''/:'';
                   u = substr0 uri idex
               in u \<noteq> routPath \<and> indexOf routPath u = 0)
         else False)"

definition getRouteMetaData ::
  "helpers \<Rightarrow> ControllerRoute \<Rightarrow> ctx \<Rightarrow> decorator \<Rightarrow> RouteMetadata option" where
  "getRouteMetaData h node c d =
     (let routPath = routPathOf h node c;
          allMethods = sortByRouteLength (allMethodsOf node d)
      in case find (\<lambda>r. orEmpty (route r) = routPath) allMethods of
           Some m \<Rightarrow> Some m
         | None \<Rightarrow> find (restMatch routPath) allMethods)"

section \<open>Parameter Binder\<close>

definition isBaseType :: "helpers \<Rightarrow> ctor \<Rightarrow> bool" where
  "isBaseType h p =
     (if \<not> isToken h p then True
      else if p = CBoolean \<or> p = CString \<or> p = CNumber then True
      else if \<not> isFunction h p then True
      else False)"

text \<open>The single REST value of a request, \<^verbatim>\<open>null\<close> when the pattern has no parameter marker.\<close>

definition restParamVal ::
  "helpers \<Rightarrow> ControllerRoute \<Rightarrow> ctx \<Rightarrow> RouteMetadata \<Rightarrow> string option" where
  "restParamVal h node c meta =
     (if isRestUri (orEmpty (route meta))
      then (let uri = orEmpty (route meta);
                r = substr0 uri (indexOf uri ''/:'') @ ''/'';
                baseURL = cutEmptyPath h (this_url node) True;
                routeUrl = cutEmptyPath h (replaceFirst (url c) baseURL) False;
                querystring = replaceFirst routeUrl r
            in Some (if indexOf querystring ''/'' > 0
                     then substr0 querystring (indexOf querystring ''/'')
                     else querystring))
      else None)"

text \<open>
  One round of the \<^verbatim>\<open>params.map\<close> callback: the provider for the parameter (or \<^verbatim>\<open>null\<close>) and
  the REST value left for the following parameters. A fault inside the callback is
  rethrown as a bad request carrying its description.
\<close>

definition bindParam ::
  "helpers \<Rightarrow> container \<Rightarrow> (string \<times> json) list \<Rightarrow> ctor \<Rightarrow> nat \<Rightarrow> string option
     \<Rightarrow> fault + (provider option \<times> string option)" where
  "bindParam h ct bdy p idx paramVal =
     (if isClass h p \<and> \<not> isBaseType h p
      then (case getInstance ct p of
              Inl err \<Rightarrow> Inl (BadRequestError (Some (errToString h err)))
            | Inr val \<Rightarrow>
                Inr (Some (VObject (foldl (\<lambda>v n. case map_of bdy n of
                                                   None \<Rightarrow> v
                                                 | Some x \<Rightarrow> AList.update n x v)
                                          val (fieldNames h p)), idx),
                     paramVal))
      else if isBaseType h p
      then (case paramVal of
              None \<Rightarrow> Inr (Some (VUndefined, idx), None)
            | Some s \<Rightarrow>
                Inr (Some (if p = CString then VString s
                           else if p = CBoolean then VBoolean s
                           else if p = CNumber then VNumber s
                           else if p = CDate then VDate s
                           else VUndefined, idx),
                     None))
      else Inr (None, paramVal))"

fun bindAll ::
  "helpers \<Rightarrow> container \<Rightarrow> (string \<times> json) list \<Rightarrow> ctor list \<Rightarrow> nat \<Rightarrow> string option
     \<Rightarrow> fault + provider option list" where
  "bindAll h ct bdy [] idx paramVal = Inr []"
| "bindAll h ct bdy (p # ps) idx paramVal =
     (case bindParam h ct bdy p idx paramVal of
        Inl err \<Rightarrow> Inl err
      | Inr (x, paramVal') \<Rightarrow>
          (case bindAll h ct bdy ps (Suc idx) paramVal' of
             Inl err \<Rightarrow> Inl err
           | Inr xs \<Rightarrow> Inr (x # xs)))"

definition createProvider ::
  "helpers \<Rightarrow> ControllerRoute \<Rightarrow> container \<Rightarrow> RouteMetadata \<Rightarrow> ctor list \<Rightarrow> ctx
     \<Rightarrow> fault + provider list" where
  "createProvider h node ct meta params c =
     (if params \<noteq> []
      then (let paramVal = restParamVal h node c meta;
                bdy = (case requestBody c of None \<Rightarrow> [] | Some b \<Rightarrow> b)
            in case bindAll h ct bdy params 0 paramVal of
                 Inl err \<Rightarrow> Inl err
               | Inr providers \<Rightarrow> Inr (List.map_filter (\<lambda>x. x) providers))
      else Inr [])"

section \<open>Dispatcher\<close>

definition logCall :: "event \<Rightarrow> ctx \<Rightarrow> ctx" where
  "logCall e c = c\<lparr>calls := calls c @ [e]\<rparr>"

text \<open>\<^verbatim>\<open>x || d\<close> for an optional string.\<close>

definition orDefault :: "string option \<Rightarrow> string \<Rightarrow> string" where
  "orDefault x d = (case x of None \<Rightarrow> d | Some s \<Rightarrow> if truthy s then s else d)"

definition truthyOpt :: "string option \<Rightarrow> bool" where
  "truthyOpt x = (case x of None \<Rightarrow> False | Some s \<Rightarrow> truthy s)"

text \<open>
  \<^verbatim>\<open>sendValue\<close> of the result values. \<^verbatim>\<open>ctx.redirect\<close> belongs to the web framework; the
  model records the target.
\<close>

fun sendValue :: "resultValue \<Rightarrow> step" where
  "sendValue (JsonResult data) c =
     (None, c\<lparr>ctype := Some ''application/json'',
              body := Some (BodyObject (case data of None \<Rightarrow> PlainObject [] | Some d \<Rightarrow> d))\<rparr>)"
| "sendValue (RedirectResult u alt) c = (None, c\<lparr>redirected := Some (u, alt)\<rparr>)"
| "sendValue (OtherResult f) c = f c"

fun isString :: "response \<Rightarrow> bool" where
  "isString (RString s) = True"
| "isString r = False"

fun isArray :: "response \<Rightarrow> bool" where
  "isArray (RObject (ArrayObject xs)) = True"
| "isArray r = False"

fun instanceofUint8Array :: "response \<Rightarrow> bool" where
  "instanceofUint8Array (RObject (Uint8ArrayObject bs)) = True"
| "instanceofUint8Array r = False"

text \<open>The part of \<^verbatim>\<open>invoke\<close> after the handler has returned.\<close>

definition sendResponse :: "RouteMetadata \<Rightarrow> response \<Rightarrow> step" where
  "sendResponse meta response c =
     (let contentType = contentType meta
      in if isString response
         then (let contentType = orDefault contentType ''text/html''
               in (None, c\<lparr>body := (case response of RString s \<Rightarrow> Some (BodyString s)
                                                     | _ \<Rightarrow> body c)\<rparr>))
         else if isArray response \<and> instanceofUint8Array response
         then (None, c\<lparr>body := (case response of
                                  RObject (Uint8ArrayObject bs) \<Rightarrow> Some (BodyBuffer bs)
                                | _ \<Rightarrow> body c)\<rparr>)
         else (case response of
                 RResult rv \<Rightarrow> sendValue rv c
               | RObject ob \<Rightarrow>
                   (let contentType = orDefault contentType ''application/json''
                    in (None, c\<lparr>ctype := Some contentType, body := Some (BodyObject ob)\<rparr>))
               | _ \<Rightarrow> (None, c)))"

definition invoke ::
  "helpers \<Rightarrow> ControllerRoute \<Rightarrow> container \<Rightarrow> decorator
     \<Rightarrow> (RouteMetadata \<Rightarrow> ctor list \<Rightarrow> fault + provider list) \<Rightarrow> step" where
  "invoke h node ct d provider c =
     (let meta = getRouteMetaData h node c d;
          c = logCall (GetRouteMetaData d) c
      in case meta of
           None \<Rightarrow> (Some NotFoundError, c)
         | Some m \<Rightarrow>
             (case propertyKey m of
                None \<Rightarrow> (Some NotFoundError, c)
              | Some key \<Rightarrow>
                  if \<not> truthy key then (Some NotFoundError, c)
                  else
                    (let c = logCall ContainerGetController c;
                         c = logCall ContainerHasAuthorization c;
                         hasAuth = hasAuthorization ct
                                     \<and> authorization (this_controller node) key;
                         c = (if hasAuth then logCall IsAuth c else c)
                     in if hasAuth \<and> \<not> isAuth ct then (Some UnauthorizedError, c)
                        else
                          (let c = logCall (GetMethodParameters key) c;
                               params = getMethodParameters ct key
                           in case provider m params of
                                Inl err \<Rightarrow> (Some err, c)
                              | Inr args \<Rightarrow>
                                  (let c = logCall (Invoke key args) c
                                   in case invokeMethod ct key args of
                                        Inl err \<Rightarrow> (Some err, c)
                                      | Inr response \<Rightarrow> sendResponse m response c)))))"

text \<open>
  \<^verbatim>\<open>navigating\<close>: the body of the \<^verbatim>\<open>try\<close> block up to the call of \<^verbatim>\<open>next()\<close>, then either
  \<^verbatim>\<open>return next()\<close> or the \<^verbatim>\<open>catch\<close> block. The promise of \<^verbatim>\<open>next()\<close> is returned, not
  awaited, so what it settles to is the outcome of \<^verbatim>\<open>navigating\<close>; after a fault \<^verbatim>\<open>next()\<close> is
  not called and \<^verbatim>\<open>navigating\<close> returns normally.
\<close>

definition navigatingBody :: "helpers \<Rightarrow> ControllerRoute \<Rightarrow> container \<Rightarrow> step" where
  "navigatingBody h node ct c =
     (let decorator = getDecoratorByMethod h (httpMethod c)
      in if decorator \<noteq> Options
         then invoke h node ct decorator
                (\<lambda>meta params. createProvider h node ct meta params c) c
         else (Some (BadRequestError None), c))"

definition navigating ::
  "helpers \<Rightarrow> ControllerRoute \<Rightarrow> container \<Rightarrow> continuation \<Rightarrow> continuation" where
  "navigating h node ct next c =
     (case navigatingBody h node ct c of
        (None, c') \<Rightarrow> next c'
      | (Some err, c') \<Rightarrow>
          Inr (case err of
                 HttpError code msg \<Rightarrow> c'\<lparr>status := code, message := msg\<rparr>
               | OtherFault x \<Rightarrow> c'\<lparr>status := 500, console := console c' @ [err]\<rparr>))"

section \<open>CORS Preflight Handler\<close>

definition ctxGet :: "ctx \<Rightarrow> string \<Rightarrow> string" where
  "ctxGet c k = (case map_of (requestHeaders c) k of None \<Rightarrow> [] | Some v \<Rightarrow> v)"

definition ctxSet :: "string \<Rightarrow> string \<Rightarrow> ctx \<Rightarrow> ctx" where
  "ctxSet k v c = c\<lparr>responseHeaders := AList.update k v (responseHeaders c)\<rparr>"

definition ctxVary :: "string \<Rightarrow> ctx \<Rightarrow> ctx" where
  "ctxVary k c = c\<lparr>varyFields := varyFields c @ [k]\<rparr>"

text \<open>The local \<^verbatim>\<open>set\<close> of \<^verbatim>\<open>invokeOption\<close>: it sets the header and remembers it.\<close>

definition setBoth ::
  "string \<Rightarrow> string \<Rightarrow> ctx \<times> (string \<times> string) list \<Rightarrow> ctx \<times> (string \<times> string) list" where
  "setBoth k v p = (ctxSet k v (fst p), AList.update k v (snd p))"

definition emptyCors :: CorsOptions where
  "emptyCors = \<lparr>credentials = None, exposeHeaders = None, keepHeadersOnError = None,
     allowMethods = None, allowHeaders = None, maxAge = None\<rparr>"

text \<open>\<^verbatim>\<open>Object.assign({}, a, b)\<close>: the keys that \<open>b\<close> has override those of \<open>a\<close>.\<close>

definition assignCors :: "CorsOptions \<Rightarrow> CorsOptions \<Rightarrow> CorsOptions" where
  "assignCors a b =
     \<lparr>credentials = (case credentials b of None \<Rightarrow> credentials a | Some x \<Rightarrow> Some x),
      exposeHeaders = (case exposeHeaders b of None \<Rightarrow> exposeHeaders a | Some x \<Rightarrow> Some x),
      keepHeadersOnError =
        (case keepHeadersOnError b of None \<Rightarrow> keepHeadersOnError a | Some x \<Rightarrow> Some x),
      allowMethods = (case allowMethods b of None \<Rightarrow> allowMethods a | Some x \<Rightarrow> Some x),
      allowHeaders = (case allowHeaders b of None \<Rightarrow> allowHeaders a | Some x \<Rightarrow> Some x),
      maxAge = (case maxAge b of None \<Rightarrow> maxAge a | Some x \<Rightarrow> Some x)\<rparr>"

text \<open>The branch of a satisfied preflight: the headers, then status 204.\<close>

definition preflightResponse :: "helpers \<Rightarrow> CorsOptions \<Rightarrow> string \<Rightarrow> ctx \<Rightarrow> ctx" where
  "preflightResponse h options origin c =
     (let c = ctxSet ''Access-Control-Allow-Origin'' origin c;
          c = (if credentials options = Some True
               then ctxSet ''Access-Control-Allow-Credentials'' ''true'' c else c);
          maxAge = StringOfNumber h (maxAge options);
          c = (if truthy maxAge then ctxSet ''Access-Control-Max-Age'' maxAge c else c);
          allowsM = (case allowMethods options of
                       Some (MethodsArray ms) \<Rightarrow> join (map (methodToString h) ms)
                     | Some (MethodsString s) \<Rightarrow> s
                     | None \<Rightarrow> []);
          allowsM = (if truthy allowsM then allowsM else ''GET,HEAD,PUT,POST,DELETE,PATCH'');
          c = (if truthy allowsM then ctxSet ''Access-Control-Allow-Methods'' allowsM c else c);
          allowH = (case allowHeaders options of
                      Some (HeadersArray hs) \<Rightarrow> join hs
                    | Some (HeadersString s) \<Rightarrow> s
                    | None \<Rightarrow> []);
          allowH = (if \<not> truthy allowH then ctxGet c ''Access-Control-Request-Headers''
                    else allowH);
          c = (if truthy allowH then ctxSet ''Access-Control-Allow-Headers'' allowH c else c)
      in c\<lparr>status := 204\<rparr>)"

definition invokeOption ::
  "helpers \<Rightarrow> ControllerRoute \<Rightarrow> container \<Rightarrow> continuation \<Rightarrow> continuation" where
  "invokeOption h node ct next c =
     (let requestOrigin = ctxGet c ''Origin'';
          c = ctxVary ''Origin'' c
      in if \<not> truthy requestOrigin then next c
         else
           (let origin = requestOrigin;
                options = (case corsOptions ct of None \<Rightarrow> emptyCors | Some x \<Rightarrow> x)
            in if httpMethod c \<noteq> MStr ''OPTIONS''
               then
                 (let p = setBoth ''Access-Control-Allow-Origin'' origin (c, []);
                      p = (if credentials options = Some True
                           then setBoth ''Access-Control-Allow-Credentials'' ''true'' p else p);
                      p = (if truthyOpt (exposeHeaders options)
                           then setBoth ''Access-Control-Expose-Headers''
                                  (orEmpty (exposeHeaders options)) p
                           else p)
                  in if keepHeadersOnError options \<noteq> Some True then next (fst p)
                     else (case next (fst p) of
                             Inl (err, errHeaders) \<Rightarrow> Inl (err, AList.merge errHeaders (snd p))
                           | Inr c' \<Rightarrow> Inr c'))
               else if \<not> truthy (ctxGet c ''Access-Control-Request-Method'') then next c
               else
                 (let m = parseRequestMethod h (ctxGet c ''Access-Control-Request-Method'');
                      d = getDecoratorByMethod h m;
                      meta = getRouteMetaData h node c d;
                      c = logCall (GetRouteMetaData d) c
                  in case meta of
                       None \<Rightarrow> next c
                     | Some mt \<Rightarrow>
                         if \<not> truthyOpt (propertyKey mt) then next c
                         else
                           (let corsmetas =
                                  (case map_of (corsMethodMeta (this_controller node))
                                          (orEmpty (propertyKey mt)) of
                                     None \<Rightarrow> [] | Some ms \<Rightarrow> ms);
                                corsmetas = (if length corsmetas < 1
                                             then corsTypeMeta (this_controller node)
                                             else corsmetas)
                            in case corsmetas of
                                 [] \<Rightarrow> next c
                               | cm # _ \<Rightarrow>
                                   Inr (preflightResponse h (assignCors options cm) origin c)))))"

section \<open>Middleware Chain Builder\<close>

text \<open>
  An entry of the ordering chain and the metadata of an insertion. Names are optional; a
  middleware is identified by its token.
\<close>

record 'm OrderMiddleware =
  name :: "string option"
  middleware :: 'm

record MiddlewareMetadata =
  metaName :: "string option"
  before :: "string option"
  after :: "string option"

text \<open>\<^verbatim>\<open>chain.findIndex(v => v.name && v.name === x)\<close>, \<open>-1\<close> when no entry passes.\<close>

fun findIndexFrom :: "('a \<Rightarrow> bool) \<Rightarrow> 'a list \<Rightarrow> nat \<Rightarrow> int" where
  "findIndexFrom P [] i = - 1"
| "findIndexFrom P (x # xs) i = (if P x then int i else findIndexFrom P xs (Suc i))"

definition findIndex :: "('a \<Rightarrow> bool) \<Rightarrow> 'a list \<Rightarrow> int" where
  "findIndex P xs = findIndexFrom P xs 0"

definition named :: "string option \<Rightarrow> 'm OrderMiddleware \<Rightarrow> bool" where
  "named x v = (truthyOpt (name v) \<and> name v = x)"

definition insertByMeta ::
  "MiddlewareMetadata \<Rightarrow> 'm \<Rightarrow> 'm OrderMiddleware list \<Rightarrow> 'm OrderMiddleware list" where
  "insertByMeta meta mw chain =
     (let ordMidd = \<lparr>name = metaName meta, middleware = mw\<rparr>
      in if length chain < 1 then chain @ [ordMidd]
         else
           (let idx = int (length chain);
                idx = (if truthyOpt (before meta) then findIndex (named (before meta)) chain
                       else idx);
                idx = (if truthyOpt (after meta) then findIndex (named (after meta)) chain + 1
                       else idx)
            in if idx < 0 \<or> idx \<ge> int (length chain) then chain @ [ordMidd]
               else take (nat idx) chain @ [ordMidd] @ drop (nat idx) chain))"

text \<open>
  Middleware tokens: a class, a string, or anything else (the \<^verbatim>\<open>Middleware\<close> decorator
  itself is such a value). The registry stands for what the container and the type
  metadata say about them.
\<close>

datatype token = ClassToken string | StringToken string | OtherToken string

record registry =
  getTokenImpl :: "token \<Rightarrow> token option"
  getTypeMetadata :: "string \<Rightarrow> MiddlewareMetadata list"

fun isClassToken :: "token \<Rightarrow> bool" where
  "isClassToken (ClassToken n) = True"
| "isClassToken t = False"

definition getMiddlewareMeta :: "registry \<Rightarrow> token \<Rightarrow> MiddlewareMetadata option" where
  "getMiddlewareMeta reg mw =
     (let type = (if isClassToken mw then Some mw else getTokenImpl reg mw)
      in case type of
           Some (ClassToken n) \<Rightarrow>
             (case getTypeMetadata reg n of [] \<Rightarrow> None | meta # _ \<Rightarrow> Some meta)
         | _ \<Rightarrow>
             (case mw of
                StringToken s \<Rightarrow> Some \<lparr>metaName = Some s, before = None, after = None\<rparr>
              | _ \<Rightarrow> None))"

text \<open>
  \<^verbatim>\<open>insert\<close> asks \<^verbatim>\<open>getMiddlewareMeta\<close> about the \<^verbatim>\<open>Middleware\<close> decorator, as written, and
  inserts only when that gives metadata.
\<close>

definition Middleware :: token where
  "Middleware = OtherToken ''Middleware''"

definition insertToken ::
  "registry \<Rightarrow> token \<Rightarrow> token OrderMiddleware list \<Rightarrow> token OrderMiddleware list" where
  "insertToken reg mw chain =
     (case getMiddlewareMeta reg Middleware of
        None \<Rightarrow> chain
      | Some meta \<Rightarrow> insertByMeta meta mw chain)"

text \<open>
  \<^verbatim>\<open>useBefore\<close> and \<^verbatim>\<open>useAfter\<close>. Reading \<^verbatim>\<open>name\<close> of a missing metadata is a type error.
\<close>

definition useBefore ::
  "registry \<Rightarrow> token \<Rightarrow> token option \<Rightarrow> token OrderMiddleware list
     \<Rightarrow> fault + token OrderMiddleware list" where
  "useBefore reg mw match orders =
     (case match of
        Some mt \<Rightarrow>
          (case (getMiddlewareMeta reg mt, getMiddlewareMeta reg mw) of
             (Some bmeta, Some curMeta) \<Rightarrow>
               Inr (insertByMeta \<lparr>metaName = metaName curMeta, before = metaName bmeta,
                                  after = None\<rparr> mw orders)
           | _ \<Rightarrow> Inl (OtherFault ''TypeError''))
      | None \<Rightarrow> Inr (insertToken reg mw orders))"

definition useAfter ::
  "registry \<Rightarrow> token \<Rightarrow> token option \<Rightarrow> token OrderMiddleware list
     \<Rightarrow> fault + token OrderMiddleware list" where
  "useAfter reg mw match orders =
     (case match of
        Some mt \<Rightarrow>
          (case (getMiddlewareMeta reg mt, getMiddlewareMeta reg mw) of
             (Some afmeta, Some curMeta) \<Rightarrow>
               Inr (insertByMeta \<lparr>metaName = metaName curMeta, before = None,
                                  after = metaName afmeta\<rparr> mw orders)
           | _ \<Rightarrow> Inl (OtherFault ''TypeError''))
      | None \<Rightarrow> Inr (insertToken reg mw orders))"

section \<open>Example inputs\<close>

text \<open>
  One instance of the parameters, and small builders for the inputs at which the
  properties below are evaluated: a request-method module numbering GET, POST, PUT, DELETE,
  OPTIONS from 0, a mount path that needs no cutting, a controller whose handlers each
  declare one route in one bucket, and a container whose handlers all return the same
  outcome.
\<close>

definition exampleHelpers :: helpers where
  "exampleHelpers =
     \<lparr>cutEmptyPath = (\<lambda>s cutEnd. s),
      methodToString = (\<lambda>m. case m of
                               MNum n \<Rightarrow> (if n = 0 then ''GET'' else if n = 1 then ''POST''
                                          else if n = 2 then ''PUT'' else if n = 3 then ''DELETE''
                                          else if n = 4 then ''OPTIONS'' else [])
                             | MStr s \<Rightarrow> s
                             | MUndefined \<Rightarrow> []),
      parseRequestMethod = (\<lambda>s. if s = ''POST'' then MNum 1 else if s = ''PUT'' then MNum 2
                                 else if s = ''DELETE'' then MNum 3
                                 else if s = ''OPTIONS'' then MNum 4 else MNum 0),
      errToString = (\<lambda>e. case e of HttpError code msg \<Rightarrow> msg | OtherFault msg \<Rightarrow> msg),
      isClass = (\<lambda>p. case p of CClass n \<Rightarrow> True | _ \<Rightarrow> False),
      isToken = (\<lambda>p. case p of COther n \<Rightarrow> False | _ \<Rightarrow> True),
      isFunction = (\<lambda>p. case p of COther n \<Rightarrow> False | _ \<Rightarrow> True),
      fieldNames = (\<lambda>p. []),
      numberToString = (\<lambda>x. case x of IntegerNumber n \<Rightarrow> StringOfInt n
                                    | OtherNumber w \<Rightarrow> w)\<rparr>"

definition exampleRoute :: "string \<Rightarrow> string \<Rightarrow> string option \<Rightarrow> RouteMetadata" where
  "exampleRoute r key t = \<lparr>route = Some r, propertyKey = Some key, contentType = t\<rparr>"

definition exampleNode ::
  "decorator \<Rightarrow> RouteMetadata list \<Rightarrow> string list \<Rightarrow> CorsOptions list \<Rightarrow> ControllerRoute" where
  "exampleNode d ms secured cors =
     \<lparr>this_url = [],
      this_controller =
        \<lparr>routeMeta = (\<lambda>d'. if d' = d then map (\<lambda>m. (orEmpty (propertyKey m), [m])) ms else []),
         corsMethodMeta = [],
         corsTypeMeta = cors,
         authorization = (\<lambda>key. key \<in> set secured)\<rparr>\<rparr>"

definition exampleContainer :: "bool \<Rightarrow> (fault + response) \<Rightarrow> container" where
  "exampleContainer auth result =
     \<lparr>hasAuthorization = True, isAuth = auth, corsOptions = None,
      getMethodParameters = (\<lambda>key. []),
      getInstance = (\<lambda>p. Inr []),
      invokeMethod = (\<lambda>key args. result)\<rparr>"

definition exampleCtx :: "method_val \<Rightarrow> string \<Rightarrow> (string \<times> string) list \<Rightarrow> ctx" where
  "exampleCtx m u hs =
     \<lparr>httpMethod = m, url = u, requestHeaders = hs, requestBody = None, status = 404,
      message = [], responseHeaders = [], varyFields = [], body = None, ctype = None,
      redirected = None, console = [], calls = []\<rparr>"

definition exampleEntry :: "string \<Rightarrow> token OrderMiddleware" where
  "exampleEntry n = \<lparr>name = Some n, middleware = StringToken n\<rparr>"

definition exampleBefore :: "string \<Rightarrow> string \<Rightarrow> MiddlewareMetadata" where
  "exampleBefore n x = \<lparr>metaName = Some n, before = Some x, after = None\<rparr>"

definition exampleAfter :: "string \<Rightarrow> string \<Rightarrow> MiddlewareMetadata" where
  "exampleAfter n x = \<lparr>metaName = Some n, before = None, after = Some x\<rparr>"

section \<open>Properties\<close>

subsection \<open>Auxiliary facts\<close>

lemma toLowerChar_not_capital:
  "\<not> (65 \<le> (of_char (toLowerChar c) :: nat) \<and> (of_char (toLowerChar c) :: nat) \<le> 90)"
proof (cases "65 \<le> (of_char c :: nat) \<and> (of_char c :: nat) \<le> 90")
  case True
  then have "toLowerChar c = char_of ((of_char c :: nat) + 32)"
    by (simp add: toLowerChar_def Let_def)
  moreover from True have "(of_char c :: nat) + 32 < 256" by simp
  ultimately have "(of_char (toLowerChar c) :: nat) = of_char c + 32"
    by simp
  with True show ?thesis by simp
next
  case False
  then show ?thesis by (simp add: toLowerChar_def Let_def)
qed

lemma toLowerCase_hd_not_capital:
  "toLowerCase s = c # cs \<Longrightarrow> \<not> (65 \<le> (of_char c :: nat) \<and> (of_char c :: nat) \<le> 90)"
  using toLowerChar_not_capital by (cases s) (auto simp: toLowerCase_def)

text \<open>A string method never reaches a bucket other than GET: every literal of the switch
  starts with a capital letter, and the lower-cased method has none.\<close>

lemma getDecoratorByMethod_MStr: "getDecoratorByMethod h (MStr s) = Get"
  by (auto simp: getDecoratorByMethod_def Let_def dest: toLowerCase_hd_not_capital)

lemma getDecoratorByMethod_MUndefined: "getDecoratorByMethod h MUndefined = Get"
  by (simp add: getDecoratorByMethod_def toLowerCase_def)

lemma find_as_filter: "find P xs = (case filter P xs of [] \<Rightarrow> None | x # _ \<Rightarrow> Some x)"
  by (induction xs) auto

lemma find_sorted_least:
  "sorted (map f ys) \<Longrightarrow> find P ys = Some m \<Longrightarrow> r \<in> set ys \<Longrightarrow> P r \<Longrightarrow> f m \<le> f r"
  by (induction ys) (auto split: if_splits)

lemma find_Some_mem: "find P ys = Some m \<Longrightarrow> m \<in> set ys \<and> P m"
  by (induction ys) (auto split: if_splits)

lemma find_None_none: "find P ys = None \<longleftrightarrow> (\<forall>y \<in> set ys. \<not> P y)"
  by (induction ys) auto

lemma set_sortByRouteLength: "set (sortByRouteLength ms) = set ms"
  by (simp add: sortByRouteLength_def)

lemma sorted_sortByRouteLength:
  "sorted (map (\<lambda>r. - int (length (orEmpty (route r)))) (sortByRouteLength ms))"
  by (simp add: sortByRouteLength_def)

lemma filter_sortByRouteLength:
  "filter P (sortByRouteLength ms) = sortByRouteLength (filter P ms)"
  by (simp add: sortByRouteLength_def filter_sort)

lemma navigatingBody_not_found:
  assumes "getDecoratorByMethod h (httpMethod c) = d" and "d \<noteq> Options"
      and "getRouteMetaData h node c d = None"
  shows "navigatingBody h node ct c = (Some NotFoundError, logCall (GetRouteMetaData d) c)"
  using assms by (simp add: navigatingBody_def invoke_def)

text \<open>The guard of \<^verbatim>\<open>navigating\<close> against the OPTIONS bucket, and why no request with a
  string method reaches it: such a request is dispatched on the GET bucket.\<close>

lemma navigatingBody_options_bucket:
  "getDecoratorByMethod h (httpMethod c) = Options \<Longrightarrow>
   navigatingBody h node ct c = (Some (BadRequestError None), c)"
  by (simp add: navigatingBody_def)

lemma navigatingBody_string_method:
  "httpMethod c = MStr s \<Longrightarrow>
   navigatingBody h node ct c
     = invoke h node ct Get (\<lambda>meta params. createProvider h node ct meta params c) c"
  by (simp add: navigatingBody_def getDecoratorByMethod_MStr)

text \<open>When the body raises nothing, \<^verbatim>\<open>navigating\<close> is whatever \<^verbatim>\<open>next()\<close> is.\<close>

lemma navigating_success:
  "navigatingBody h node ct c = (None, c') \<Longrightarrow> navigating h node ct next c = next c'"
  by (simp add: navigating_def)

text \<open>A string returned by a handler becomes the body; the content type of the context
  is not written, whatever the route metadata declares.\<close>

lemma sendResponse_string:
  "sendResponse meta (RString s) c = (None, c\<lparr>body := Some (BodyString s)\<rparr>)"
  by (simp add: sendResponse_def)

lemma digits_nonempty: "digits n \<noteq> []"
  by (subst digits.simps) simp

lemma StringOfNumber_undefined: "StringOfNumber h None = ''undefined''"
  by (simp add: StringOfNumber_def)

lemma StringOfNumber_safe_truthy:
  "- maxSafeInteger \<le> n \<Longrightarrow> n \<le> maxSafeInteger
     \<Longrightarrow> truthy (StringOfNumber h (Some (IntegerNumber n)))"
  by (simp add: StringOfNumber_def StringOfInt_def truthy_def digits_nonempty)

lemma map_of_ctxSet:
  "map_of (responseHeaders (ctxSet k v c)) = (map_of (responseHeaders c))(k \<mapsto> v)"
  by (simp add: ctxSet_def update_conv')

text \<open>A satisfied preflight carries the header whenever \<^verbatim>\<open>String(maxAge)\<close> is not empty,
  with that string as value; so it does when no \<^verbatim>\<open>maxAge\<close> is configured.\<close>

lemma preflightResponse_max_age:
  "truthy (StringOfNumber h (maxAge options)) \<Longrightarrow>
   map_of (responseHeaders (preflightResponse h options origin c)) ''Access-Control-Max-Age''
     = Some (StringOfNumber h (maxAge options))"
  by (simp add: preflightResponse_def Let_def map_of_ctxSet)

lemma preflightResponse_max_age_unconfigured:
  "maxAge options = None \<Longrightarrow>
   map_of (responseHeaders (preflightResponse h options origin c)) ''Access-Control-Max-Age''
     = Some ''undefined''"
  using preflightResponse_max_age [of h options origin c]
  by (simp add: StringOfNumber_undefined truthy_def)

lemma findIndexFrom_none: "(\<forall>x \<in> set xs. \<not> P x) \<Longrightarrow> findIndexFrom P xs i = - 1"
  by (induction xs arbitrary: i) auto

lemma findIndexFrom_split:
  "\<forall>u \<in> set pre. \<not> P u \<Longrightarrow> P v \<Longrightarrow> findIndexFrom P (pre @ v # post) i = int (i + length pre)"
  by (induction pre arbitrary: i) auto

text \<open>An insertion adds its entry at one position and moves nothing else.\<close>

lemma insertByMeta_keeps_entries:
  "\<exists>i \<le> length chain. insertByMeta meta mw chain
      = take i chain @ \<lparr>name = metaName meta, middleware = mw\<rparr> # drop i chain"
proof -
  let ?o = "\<lparr>name = metaName meta, middleware = mw\<rparr>"
  define idx where "idx =
     (if truthyOpt (after meta) then findIndex (named (after meta)) chain + 1
      else if truthyOpt (before meta) then findIndex (named (before meta)) chain
      else int (length chain))"
  have eq: "insertByMeta meta mw chain =
     (if length chain < 1 \<or> idx < 0 \<or> idx \<ge> int (length chain) then chain @ [?o]
      else take (nat idx) chain @ ?o # drop (nat idx) chain)"
    by (simp add: insertByMeta_def Let_def idx_def)
  show ?thesis
  proof (cases "length chain < 1 \<or> idx < 0 \<or> idx \<ge> int (length chain)")
    case True
    with eq have "insertByMeta meta mw chain
        = take (length chain) chain @ ?o # drop (length chain) chain" by simp
    then show ?thesis by blast
  next
    case False
    with eq have "insertByMeta meta mw chain = take (nat idx) chain @ ?o # drop (nat idx) chain"
      by simp
    moreover from False have "nat idx \<le> length chain" by linarith
    ultimately show ?thesis by blast
  qed
qed

lemma useBefore_insertByMeta:
  "getMiddlewareMeta reg mt = Some bmeta \<Longrightarrow> getMiddlewareMeta reg mw = Some curMeta \<Longrightarrow>
   useBefore reg mw (Some mt) orders
     = Inr (insertByMeta \<lparr>metaName = metaName curMeta, before = metaName bmeta, after = None\<rparr>
              mw orders)"
  by (simp add: useBefore_def)

lemma useAfter_insertByMeta:
  "getMiddlewareMeta reg mt = Some afmeta \<Longrightarrow> getMiddlewareMeta reg mw = Some curMeta \<Longrightarrow>
   useAfter reg mw (Some mt) orders
     = Inr (insertByMeta \<lparr>metaName = metaName curMeta, before = None, after = metaName afmeta\<rparr>
              mw orders)"
  by (simp add: useAfter_def)

subsection \<open>Route Matcher\<close>

text \<open>
  C1. When exactly one entry of the bucket has a route pattern equal to the normalized
  request path, \<^verbatim>\<open>getRouteMetaData\<close> returns that entry, whatever REST patterns the bucket
  holds besides.
\<close>

theorem getRouteMetaData_exact_match:
  assumes "filter (\<lambda>r. orEmpty (route r) = routPathOf h node c) (allMethodsOf node d) = [e]"
  shows "getRouteMetaData h node c d = Some e"
proof -
  have "filter (\<lambda>r. orEmpty (route r) = routPathOf h node c)
          (sortByRouteLength (allMethodsOf node d)) = [e]"
    using assms by (simp add: filter_sortByRouteLength) (simp add: sortByRouteLength_def)
  then have "find (\<lambda>r. orEmpty (route r) = routPathOf h node c)
          (sortByRouteLength (allMethodsOf node d)) = Some e"
    by (simp add: find_as_filter)
  then show ?thesis by (simp add: getRouteMetaData_def Let_def)
qed

text \<open>The request \<^verbatim>\<open>/users/list\<close> against \<^verbatim>\<open>/users/:id\<close> and \<^verbatim>\<open>/users/list\<close>: the REST pattern
  is compatible with the path, and the exact entry is returned.\<close>

theorem getRouteMetaData_exact_match_witness:
  "filter (\<lambda>r. orEmpty (route r)
                 = routPathOf exampleHelpers
                     (exampleNode Get [exampleRoute ''/users/:id'' ''show'' None,
                                       exampleRoute ''/users/list'' ''list'' None] [] [])
                     (exampleCtx (MStr ''GET'') ''/users/list'' []))
          (allMethodsOf (exampleNode Get [exampleRoute ''/users/:id'' ''show'' None,
                                          exampleRoute ''/users/list'' ''list'' None] [] []) Get)
     = [exampleRoute ''/users/list'' ''list'' None]
   \<and> restMatch ''/users/list'' (exampleRoute ''/users/:id'' ''show'' None)
   \<and> getRouteMetaData exampleHelpers
        (exampleNode Get [exampleRoute ''/users/:id'' ''show'' None,
                          exampleRoute ''/users/list'' ''list'' None] [] [])
        (exampleCtx (MStr ''GET'') ''/users/list'' []) Get
      = Some (exampleRoute ''/users/list'' ''list'' None)"
proof -
  have h: "filter (\<lambda>r. orEmpty (route r)
                 = routPathOf exampleHelpers
                     (exampleNode Get [exampleRoute ''/users/:id'' ''show'' None,
                                       exampleRoute ''/users/list'' ''list'' None] [] [])
                     (exampleCtx (MStr ''GET'') ''/users/list'' []))
          (allMethodsOf (exampleNode Get [exampleRoute ''/users/:id'' ''show'' None,
                                          exampleRoute ''/users/list'' ''list'' None] [] []) Get)
     = [exampleRoute ''/users/list'' ''list'' None]"
    by code_simp
  have r: "restMatch ''/users/list'' (exampleRoute ''/users/:id'' ''show'' None)"
    by code_simp
  from h r getRouteMetaData_exact_match [OF h] show ?thesis by blast
qed

text \<open>
  C2, as stated, fails: with the patterns \<^verbatim>\<open>/a/:identifier\<close> and \<^verbatim>\<open>/a/b/:id\<close> and the request
  \<^verbatim>\<open>/a/b/5\<close>, both patterns are compatible, the second has the longer static prefix, and
  the first, whose pattern is longer, is returned.
\<close>

theorem getRouteMetaData_static_prefix_counterexample:
  "getRouteMetaData exampleHelpers
       (exampleNode Get [exampleRoute ''/a/:identifier'' ''byName'' None,
                         exampleRoute ''/a/b/:id'' ''byId'' None] [] [])
       (exampleCtx (MStr ''GET'') ''/a/b/5'' []) Get
     = Some (exampleRoute ''/a/:identifier'' ''byName'' None)
   \<and> restMatch ''/a/b/5'' (exampleRoute ''/a/:identifier'' ''byName'' None)
   \<and> restMatch ''/a/b/5'' (exampleRoute ''/a/b/:id'' ''byId'' None)
   \<and> length (staticPrefix ''/a/:identifier'') < length (staticPrefix ''/a/b/:id'')"
  by code_simp

text \<open>
  C2, amended. When no entry of the bucket matches the request path exactly and at least
  one REST pattern is compatible with it, \<^verbatim>\<open>getRouteMetaData\<close> returns a compatible entry
  whose route pattern is at least as long as that of every compatible entry: candidates
  are tried in order of descending route-pattern length.
\<close>

theorem getRouteMetaData_rest_longest_pattern:
  assumes noexact: "\<forall>r \<in> set (allMethodsOf node d). orEmpty (route r) \<noteq> routPathOf h node c"
      and some: "\<exists>r \<in> set (allMethodsOf node d). restMatch (routPathOf h node c) r"
  shows "\<exists>m. getRouteMetaData h node c d = Some m \<and> m \<in> set (allMethodsOf node d)
            \<and> restMatch (routPathOf h node c) m
            \<and> (\<forall>r \<in> set (allMethodsOf node d). restMatch (routPathOf h node c) r
                  \<longrightarrow> length (orEmpty (route r)) \<le> length (orEmpty (route m)))"
proof -
  let ?p = "routPathOf h node c"
  let ?ys = "sortByRouteLength (allMethodsOf node d)"
  have first: "find (\<lambda>r. orEmpty (route r) = ?p) ?ys = None"
    using noexact by (simp add: find_None_none set_sortByRouteLength)
  then have res: "getRouteMetaData h node c d = find (restMatch ?p) ?ys"
    by (simp add: getRouteMetaData_def Let_def)
  from some obtain m where m: "find (restMatch ?p) ?ys = Some m"
    using find_None_none [of "restMatch ?p" ?ys] by (auto simp: set_sortByRouteLength)
  have mem: "m \<in> set (allMethodsOf node d) \<and> restMatch ?p m"
    using find_Some_mem [OF m] by (simp add: set_sortByRouteLength)
  have "length (orEmpty (route r)) \<le> length (orEmpty (route m))"
    if "r \<in> set (allMethodsOf node d)" "restMatch ?p r" for r
    using find_sorted_least [OF sorted_sortByRouteLength m, of r] that
    by (simp add: set_sortByRouteLength)
  with res m mem show ?thesis by auto
qed

text \<open>The request \<^verbatim>\<open>/users/42/orders\<close> against \<^verbatim>\<open>/users/:id\<close> and \<^verbatim>\<open>/users/:id/orders\<close>.\<close>

theorem getRouteMetaData_rest_longest_pattern_witness:
  "\<exists>m. getRouteMetaData exampleHelpers
          (exampleNode Get [exampleRoute ''/users/:id'' ''show'' None,
                            exampleRoute ''/users/:id/orders'' ''orders'' None] [] [])
          (exampleCtx (MStr ''GET'') ''/users/42/orders'' []) Get = Some m
       \<and> m = exampleRoute ''/users/:id/orders'' ''orders'' None
       \<and> restMatch ''/users/42/orders'' m
       \<and> length (orEmpty (route (exampleRoute ''/users/:id'' ''show'' None)))
           \<le> length (orEmpty (route m))"
proof -
  let ?node = "exampleNode Get [exampleRoute ''/users/:id'' ''show'' None,
                                exampleRoute ''/users/:id/orders'' ''orders'' None] [] []"
  let ?c = "exampleCtx (MStr ''GET'') ''/users/42/orders'' []"
  have h1: "\<forall>r \<in> set (allMethodsOf ?node Get).
              orEmpty (route r) \<noteq> routPathOf exampleHelpers ?node ?c"
    by code_simp
  have h2: "\<exists>r \<in> set (allMethodsOf ?node Get).
              restMatch (routPathOf exampleHelpers ?node ?c) r"
    by code_simp
  have p: "routPathOf exampleHelpers ?node ?c = ''/users/42/orders''"
    by code_simp
  have v: "getRouteMetaData exampleHelpers ?node ?c Get
             = Some (exampleRoute ''/users/:id/orders'' ''orders'' None)"
    by code_simp
  have s: "exampleRoute ''/users/:id'' ''show'' None \<in> set (allMethodsOf ?node Get)"
    by code_simp
  have r: "restMatch ''/users/42/orders'' (exampleRoute ''/users/:id'' ''show'' None)"
    by code_simp
  from getRouteMetaData_rest_longest_pattern [OF h1 h2] obtain m where
    m: "getRouteMetaData exampleHelpers ?node ?c Get = Some m"
       "restMatch (routPathOf exampleHelpers ?node ?c) m"
       "\<forall>r \<in> set (allMethodsOf ?node Get). restMatch (routPathOf exampleHelpers ?node ?c) r
            \<longrightarrow> length (orEmpty (route r)) \<le> length (orEmpty (route m))"
    by blast
  from m(3) s r p
  have "length (orEmpty (route (exampleRoute ''/users/:id'' ''show'' None)))
          \<le> length (orEmpty (route m))"
    by simp
  with m(1,2) v p show ?thesis by simp
qed

subsection \<open>Decorator buckets\<close>

text \<open>
  C3 does not hold of \<^verbatim>\<open>getDecoratorByMethod\<close>: the method string is lower-cased and then
  compared with literals that contain capitals, so the request methods POST, PUT, DELETE
  and OPTIONS all select the GET bucket.
\<close>

theorem getDecoratorByMethod_strings_select_get:
  "getDecoratorByMethod h (MStr ''POST'') = Get
   \<and> getDecoratorByMethod h (MStr ''PUT'') = Get
   \<and> getDecoratorByMethod h (MStr ''DELETE'') = Get
   \<and> getDecoratorByMethod h (MStr ''OPTIONS'') = Get"
  by (simp add: getDecoratorByMethod_MStr)

subsection \<open>Dispatcher\<close>

text \<open>
  C4 does not hold of \<^verbatim>\<open>navigating\<close>: the guard against the OPTIONS bucket is there, but the
  method of a request is a string, and for a string \<^verbatim>\<open>getDecoratorByMethod\<close> never gives that
  bucket. A request with the method \<^verbatim>\<open>OPTIONS\<close> for \<^verbatim>\<open>/hello\<close> runs the matcher on the GET
  bucket and invokes the handler found there; the status is not set to 400.
\<close>

theorem navigating_options_request_runs_get_handler:
  "navigating exampleHelpers
       (exampleNode Get [exampleRoute ''/hello'' ''hello'' None] [] [])
       (exampleContainer True (Inr (RString ''hi''))) Inr
       (exampleCtx (MStr ''OPTIONS'') ''/hello'' [])
     = Inr ((exampleCtx (MStr ''OPTIONS'') ''/hello'' [])
             \<lparr>body := Some (BodyString ''hi''),
              calls := [GetRouteMetaData Get, ContainerGetController,
                        ContainerHasAuthorization, GetMethodParameters ''hello'',
                        Invoke ''hello'' []]\<rparr>)"
  by code_simp

text \<open>
  C5. When the bucket is not OPTIONS, the matcher resolves a handler, the authorization
  capability is registered, the handler carries the authorization requirement and
  \<^verbatim>\<open>isAuth()\<close> answers false, \<^verbatim>\<open>navigating\<close> ends with the status and message of the
  unauthorized error. The container calls made are the lookup of the controller, the
  test for the capability and \<^verbatim>\<open>isAuth\<close>: neither \<^verbatim>\<open>getMethodParameters\<close> nor
  \<^verbatim>\<open>container.invoke\<close> is among them, and body and content type are untouched.
\<close>

theorem navigating_unauthorized_before_binding:
  assumes "getDecoratorByMethod h (httpMethod c) = d" and "d \<noteq> Options"
      and "getRouteMetaData h node c d = Some m"
      and "propertyKey m = Some key" and "truthy key"
      and "hasAuthorization ct" and "authorization (this_controller node) key"
      and "\<not> isAuth ct"
  shows "navigating h node ct next c =
           Inr (c\<lparr>status := 401, message := ''Unauthorized'',
                  calls := calls c @ [GetRouteMetaData d, ContainerGetController,
                                      ContainerHasAuthorization, IsAuth]\<rparr>)"
  using assms
  by (simp add: navigating_def navigatingBody_def invoke_def logCall_def UnauthorizedError_def)

theorem navigating_unauthorized_before_binding_witness:
  "navigating exampleHelpers
       (exampleNode Get [exampleRoute ''/secret'' ''secret'' None] [''secret''] [])
       (exampleContainer False (Inr (RString ''classified''))) Inr
       (exampleCtx (MStr ''GET'') ''/secret'' [])
     = Inr ((exampleCtx (MStr ''GET'') ''/secret'' [])
             \<lparr>status := 401, message := ''Unauthorized'',
              calls := [GetRouteMetaData Get, ContainerGetController,
                        ContainerHasAuthorization, IsAuth]\<rparr>)"
proof -
  let ?node = "exampleNode Get [exampleRoute ''/secret'' ''secret'' None] [''secret''] []"
  let ?ct = "exampleContainer False (Inr (RString ''classified''))"
  let ?c = "exampleCtx (MStr ''GET'') ''/secret'' []"
  have h1: "getDecoratorByMethod exampleHelpers (httpMethod ?c) = Get" by code_simp
  have h2: "Get \<noteq> Options" by simp
  have h3: "getRouteMetaData exampleHelpers ?node ?c Get
              = Some (exampleRoute ''/secret'' ''secret'' None)" by code_simp
  have h4: "propertyKey (exampleRoute ''/secret'' ''secret'' None) = Some ''secret''"
    by code_simp
  have h5: "truthy ''secret''" by code_simp
  have h6: "hasAuthorization ?ct" by code_simp
  have h7: "authorization (this_controller ?node) ''secret''" by code_simp
  have h8: "\<not> isAuth ?ct" by code_simp
  have e: "calls ?c = []" by code_simp
  from navigating_unauthorized_before_binding [OF h1 h2 h3 h4 h5 h6 h7 h8, of Inr] e
  show ?thesis by simp
qed

text \<open>
  C6. Whatever fault the body of \<^verbatim>\<open>navigating\<close> raises, \<^verbatim>\<open>navigating\<close> itself returns
  normally. For an \<^verbatim>\<open>HttpError\<close> the status and the message of the context are the error's
  code and message and nothing is logged; for any other fault the status is 500, the fault
  is written to the console and the message is left as it was.
\<close>

theorem navigating_translates_faults:
  assumes "navigatingBody h node ct c = (Some err, c')"
  shows "\<exists>c''. navigating h node ct next c = Inr c''
           \<and> (case err of
                 HttpError code msg \<Rightarrow>
                   status c'' = code \<and> message c'' = msg \<and> console c'' = console c'
               | OtherFault x \<Rightarrow>
                   status c'' = 500 \<and> message c'' = message c'
                   \<and> console c'' = console c' @ [err])"
  using assms by (cases err) (simp_all add: navigating_def)

text \<open>A request that no metadata matches, and a handler that throws something else.\<close>

theorem navigating_translates_faults_witness:
  "(\<exists>c''. navigating exampleHelpers
            (exampleNode Get [exampleRoute ''/hello'' ''hello'' None] [] [])
            (exampleContainer True (Inr (RString ''hi''))) Inr
            (exampleCtx (MStr ''GET'') ''/nothing'' []) = Inr c''
          \<and> status c'' = 404 \<and> message c'' = ''Not Found'' \<and> console c'' = [])
   \<and> (\<exists>c''. navigating exampleHelpers
            (exampleNode Get [exampleRoute ''/hello'' ''hello'' None] [] [])
            (exampleContainer True (Inl (OtherFault ''boom''))) Inr
            (exampleCtx (MStr ''GET'') ''/hello'' []) = Inr c''
          \<and> status c'' = 500 \<and> message c'' = [] \<and> console c'' = [OtherFault ''boom''])"
proof -
  let ?node = "exampleNode Get [exampleRoute ''/hello'' ''hello'' None] [] []"
  have h1: "navigatingBody exampleHelpers ?node (exampleContainer True (Inr (RString ''hi'')))
              (exampleCtx (MStr ''GET'') ''/nothing'' [])
            = (Some (HttpError 404 ''Not Found''),
               (exampleCtx (MStr ''GET'') ''/nothing'' [])\<lparr>calls := [GetRouteMetaData Get]\<rparr>)"
    by code_simp
  have h2: "navigatingBody exampleHelpers ?node (exampleContainer True (Inl (OtherFault ''boom'')))
              (exampleCtx (MStr ''GET'') ''/hello'' [])
            = (Some (OtherFault ''boom''),
               (exampleCtx (MStr ''GET'') ''/hello'' [])
                 \<lparr>calls := [GetRouteMetaData Get, ContainerGetController,
                            ContainerHasAuthorization, GetMethodParameters ''hello'',
                            Invoke ''hello'' []]\<rparr>)"
    by code_simp
  have e1: "console (exampleCtx (MStr ''GET'') ''/nothing'' []) = []" by code_simp
  have e2: "console (exampleCtx (MStr ''GET'') ''/hello'' []) = []
            \<and> message (exampleCtx (MStr ''GET'') ''/hello'' []) = []" by code_simp
  from navigating_translates_faults [OF h1, of Inr] e1
  have a: "\<exists>c''. navigating exampleHelpers ?node (exampleContainer True (Inr (RString ''hi'')))
             Inr (exampleCtx (MStr ''GET'') ''/nothing'' []) = Inr c''
          \<and> status c'' = 404 \<and> message c'' = ''Not Found'' \<and> console c'' = []"
    by simp
  from navigating_translates_faults [OF h2, of Inr] e2
  have b: "\<exists>c''. navigating exampleHelpers ?node
             (exampleContainer True (Inl (OtherFault ''boom''))) Inr
             (exampleCtx (MStr ''GET'') ''/hello'' []) = Inr c''
          \<and> status c'' = 500 \<and> message c'' = [] \<and> console c'' = [OtherFault ''boom'']"
    by simp
  from a b show ?thesis by blast
qed

text \<open>
  C7 does not hold of \<^verbatim>\<open>invoke\<close>: for a string the body is set, but the content type
  computed from the route metadata is never written to the context. A handler that returns
  \<^verbatim>\<open><a/>\<close> on a route declaring \<^verbatim>\<open>application/xml\<close> leaves the content type of the context
  as it was.
\<close>

theorem navigating_string_response_content_type:
  "navigating exampleHelpers
       (exampleNode Get [exampleRoute ''/hello'' ''hello'' (Some ''application/xml'')] [] [])
       (exampleContainer True (Inr (RString ''<a/>''))) Inr
       (exampleCtx (MStr ''GET'') ''/hello'' [])
     = Inr ((exampleCtx (MStr ''GET'') ''/hello'' [])
             \<lparr>body := Some (BodyString ''<a/>''), ctype := None,
              calls := [GetRouteMetaData Get, ContainerGetController,
                        ContainerHasAuthorization, GetMethodParameters ''hello'',
                        Invoke ''hello'' []]\<rparr>)"
  by code_simp

subsection \<open>CORS Preflight Handler\<close>

text \<open>
  C8 does not hold of \<^verbatim>\<open>invokeOption\<close>: the value tested is \<^verbatim>\<open>String(options.maxAge)\<close>, which
  is never empty. A preflight for a handler whose merged CORS options configure no
  \<^verbatim>\<open>maxAge\<close> is answered with status 204 and the header \<^verbatim>\<open>Access-Control-Max-Age: undefined\<close>.
\<close>

theorem invokeOption_max_age_unconfigured:
  "invokeOption exampleHelpers
       (exampleNode Post [exampleRoute ''/items'' ''create'' None] [] [emptyCors])
       (exampleContainer True (Inr RPrimitive)) Inr
       (exampleCtx (MStr ''OPTIONS'') ''/items''
          [(''Origin'', ''https://a.com''), (''Access-Control-Request-Method'', ''POST'')])
     = Inr ((exampleCtx (MStr ''OPTIONS'') ''/items''
               [(''Origin'', ''https://a.com''), (''Access-Control-Request-Method'', ''POST'')])
             \<lparr>status := 204,
              responseHeaders :=
                [(''Access-Control-Allow-Origin'', ''https://a.com''),
                 (''Access-Control-Max-Age'', ''undefined''),
                 (''Access-Control-Allow-Methods'', ''GET,HEAD,PUT,POST,DELETE,PATCH'')],
              varyFields := [''Origin''], calls := [GetRouteMetaData Post]\<rparr>)"
  by code_simp

subsection \<open>Middleware Chain Builder\<close>

text \<open>
  C9, as stated, fails for an insertion that declares \<^verbatim>\<open>after\<close> as well: the position found
  for \<^verbatim>\<open>before\<close> is overwritten. Inserting \<^verbatim>\<open>m\<close> with \<^verbatim>\<open>before = x\<close> and \<^verbatim>\<open>after = y\<close> into the
  chain \<^verbatim>\<open>x, y\<close> appends it.
\<close>

theorem insertByMeta_before_and_after_counterexample:
  "insertByMeta \<lparr>metaName = Some ''m'', before = Some ''x'', after = Some ''y''\<rparr>
       (StringToken ''m'')
       [\<lparr>name = Some ''x'', middleware = StringToken ''x''\<rparr>,
        \<lparr>name = Some ''y'', middleware = StringToken ''y''\<rparr>]
     = [\<lparr>name = Some ''x'', middleware = StringToken ''x''\<rparr>,
        \<lparr>name = Some ''y'', middleware = StringToken ''y''\<rparr>,
        \<lparr>name = Some ''m'', middleware = StringToken ''m''\<rparr>]"
  by code_simp

text \<open>
  C9, amended. An insertion that declares \<^verbatim>\<open>before = x\<close> and no \<^verbatim>\<open>after\<close>, into a chain that
  holds an entry named \<open>x\<close>, places the new entry immediately before the first entry named
  \<open>x\<close> and leaves every other entry where it was. A later insertion, whatever it declares,
  again adds one entry at one position and moves nothing: it does not restore the
  adjacency of an earlier entry with its target.
\<close>

theorem insertByMeta_before_present:
  assumes "before meta = Some x" and "x \<noteq> []" and "\<not> truthyOpt (after meta)"
      and "\<exists>v \<in> set chain. name v = Some x"
  shows "(\<exists>pre v post. chain = pre @ v # post \<and> name v = Some x
            \<and> (\<forall>u \<in> set pre. name u \<noteq> Some x)
            \<and> insertByMeta meta mw chain
                = pre @ \<lparr>name = metaName meta, middleware = mw\<rparr> # v # post)
       \<and> (\<exists>i \<le> length (insertByMeta meta mw chain).
             insertByMeta meta' mw' (insertByMeta meta mw chain)
               = take i (insertByMeta meta mw chain)
                   @ \<lparr>name = metaName meta', middleware = mw'\<rparr>
                   # drop i (insertByMeta meta mw chain))"
proof -
  have P: "\<And>v. named (before meta) v \<longleftrightarrow> name v = Some x"
    using assms by (auto simp: named_def truthyOpt_def truthy_def)
  from assms obtain pre v post where split: "chain = pre @ v # post" "name v = Some x"
    "\<forall>u \<in> set pre. name u \<noteq> Some x"
    using split_list_first_prop [of chain "\<lambda>v. name v = Some x"] by blast
  have idx: "findIndex (named (before meta)) chain = int (length pre)"
    using split findIndexFrom_split [of pre "named (before meta)" v post 0]
    by (simp add: findIndex_def P)
  have "truthyOpt (before meta)" using assms by (simp add: truthyOpt_def truthy_def)
  with idx assms(3) split(1)
  have "insertByMeta meta mw chain = pre @ \<lparr>name = metaName meta, middleware = mw\<rparr> # v # post"
    by (simp add: insertByMeta_def Let_def)
  with split have "\<exists>pre v post. chain = pre @ v # post \<and> name v = Some x
            \<and> (\<forall>u \<in> set pre. name u \<noteq> Some x)
            \<and> insertByMeta meta mw chain
                = pre @ \<lparr>name = metaName meta, middleware = mw\<rparr> # v # post"
    by blast
  with insertByMeta_keeps_entries [of "insertByMeta meta mw chain" meta' mw']
  show ?thesis by blast
qed

text \<open>Into the chain \<^verbatim>\<open>a, x, y\<close>: \<^verbatim>\<open>m\<close> before \<^verbatim>\<open>x\<close> gives \<^verbatim>\<open>a, m, x, y\<close>; then \<^verbatim>\<open>k\<close> before \<^verbatim>\<open>x\<close>
  gives \<^verbatim>\<open>a, m, k, x, y\<close>, where \<^verbatim>\<open>m\<close> no longer stands next to \<^verbatim>\<open>x\<close>.\<close>

theorem insertByMeta_before_present_witness:
  "(\<exists>pre v post.
       [exampleEntry ''a'', exampleEntry ''x'', exampleEntry ''y''] = pre @ v # post
       \<and> name v = Some ''x''
       \<and> insertByMeta (exampleBefore ''m'' ''x'') (StringToken ''m'')
            [exampleEntry ''a'', exampleEntry ''x'', exampleEntry ''y'']
          = pre @ exampleEntry ''m'' # v # post)
   \<and> insertByMeta (exampleBefore ''m'' ''x'') (StringToken ''m'')
        [exampleEntry ''a'', exampleEntry ''x'', exampleEntry ''y'']
      = [exampleEntry ''a'', exampleEntry ''m'', exampleEntry ''x'', exampleEntry ''y'']
   \<and> insertByMeta (exampleBefore ''k'' ''x'') (StringToken ''k'')
        [exampleEntry ''a'', exampleEntry ''m'', exampleEntry ''x'', exampleEntry ''y'']
      = [exampleEntry ''a'', exampleEntry ''m'', exampleEntry ''k'', exampleEntry ''x'',
         exampleEntry ''y'']"
proof -
  let ?chain = "[exampleEntry ''a'', exampleEntry ''x'', exampleEntry ''y'']"
  have h1: "before (exampleBefore ''m'' ''x'') = Some ''x''" by code_simp
  have h2: "''x'' \<noteq> []" by simp
  have h3: "\<not> truthyOpt (after (exampleBefore ''m'' ''x''))" by code_simp
  have h4: "\<exists>v \<in> set ?chain. name v = Some ''x''" by code_simp
  have e: "\<lparr>name = metaName (exampleBefore ''m'' ''x''), middleware = StringToken ''m''\<rparr>
             = exampleEntry ''m''" by code_simp
  have v1: "insertByMeta (exampleBefore ''m'' ''x'') (StringToken ''m'') ?chain
      = [exampleEntry ''a'', exampleEntry ''m'', exampleEntry ''x'', exampleEntry ''y'']"
    by code_simp
  have v2: "insertByMeta (exampleBefore ''k'' ''x'') (StringToken ''k'')
        [exampleEntry ''a'', exampleEntry ''m'', exampleEntry ''x'', exampleEntry ''y'']
      = [exampleEntry ''a'', exampleEntry ''m'', exampleEntry ''k'', exampleEntry ''x'',
         exampleEntry ''y'']"
    by code_simp
  from insertByMeta_before_present [OF h1 h2 h3 h4, of "StringToken ''m''"]
  obtain pre v post where "?chain = pre @ v # post" "name v = Some ''x''"
    "insertByMeta (exampleBefore ''m'' ''x'') (StringToken ''m'') ?chain
       = pre @ \<lparr>name = metaName (exampleBefore ''m'' ''x''), middleware = StringToken ''m''\<rparr>
           # v # post"
    by blast
  with e v1 v2 show ?thesis by metis
qed

text \<open>
  C10. An insertion into a non-empty chain that declares \<^verbatim>\<open>after = x\<close> while no entry is
  named \<open>x\<close> puts the new entry at the front of the chain.
\<close>

theorem insertByMeta_after_absent_goes_first:
  assumes "chain \<noteq> []" and "after meta = Some x" and "x \<noteq> []"
      and "\<forall>v \<in> set chain. name v \<noteq> Some x"
  shows "insertByMeta meta mw chain = \<lparr>name = metaName meta, middleware = mw\<rparr> # chain"
proof -
  have "findIndex (named (after meta)) chain = - 1"
    using assms by (simp add: findIndex_def findIndexFrom_none named_def)
  moreover have "truthyOpt (after meta)"
    using assms by (simp add: truthyOpt_def truthy_def)
  moreover have "0 < length chain" using assms by simp
  ultimately show ?thesis by (simp add: insertByMeta_def Let_def)
qed

theorem insertByMeta_after_absent_goes_first_witness:
  "insertByMeta (exampleAfter ''m'' ''z'') (StringToken ''m'')
       [exampleEntry ''a'', exampleEntry ''x'']
     = \<lparr>name = metaName (exampleAfter ''m'' ''z''), middleware = StringToken ''m''\<rparr>
         # [exampleEntry ''a'', exampleEntry ''x'']
   \<and> \<lparr>name = metaName (exampleAfter ''m'' ''z''), middleware = StringToken ''m''\<rparr>
       = exampleEntry ''m''"
proof -
  have h1: "[exampleEntry ''a'', exampleEntry ''x''] \<noteq> []" by simp
  have h2: "after (exampleAfter ''m'' ''z'') = Some ''z''" by code_simp
  have h3: "''z'' \<noteq> []" by simp
  have h4: "\<forall>v \<in> set [exampleEntry ''a'', exampleEntry ''x'']. name v \<noteq> Some ''z''"
    by code_simp
  have e: "\<lparr>name = metaName (exampleAfter ''m'' ''z''), middleware = StringToken ''m''\<rparr>
             = exampleEntry ''m''" by code_simp
  from insertByMeta_after_absent_goes_first [OF h1 h2 h3 h4, of "StringToken ''m''"] e
  show ?thesis by simp
qed

end
